theory Spec2Isabelle
  imports Complex_Main
begin

section \<open>The route guide server: data model\<close>

text \<open>
  The handlers of \<^verbatim>\<open>route_guide_server.js\<close> work on plain JavaScript objects.
  A field of a point holds an integer or is absent (reading it gives \<^verbatim>\<open>undefined\<close>);
  \<open>None\<close> stands for the absent field. The strict equality \<^verbatim>\<open>===\<close> of two such
  fields is then the equality of \<open>int option\<close>: two integers are equal when they are
  the same integer, \<^verbatim>\<open>undefined === undefined\<close> holds, and an integer never equals
  \<^verbatim>\<open>undefined\<close>.
\<close>

record point =
  latitude :: "int option"
  longitude :: "int option"

record feature =
  name :: string
  location :: point

record rectangle =
  lo :: point
  hi :: point

record route_note =
  note_location :: point
  message :: string

record route_summary =
  point_count :: int
  feature_count :: int
  distance :: int
  elapsed_time :: int

text \<open>
  A point is well formed when both of its fields are present.
\<close>

definition wf_point :: "point \<Rightarrow> bool" where
  "wf_point p \<longleftrightarrow> latitude p \<noteq> None \<and> longitude p \<noteq> None"

text \<open>
  A handler answers through \<^verbatim>\<open>callback(error, value)\<close>: \<open>Inl\<close> carries the error,
  \<open>Inr\<close> the value of a call \<^verbatim>\<open>callback(null, value)\<close>.
\<close>

datatype error = InvalidArgument

text \<open>
  A writable call object: the messages written so far and whether \<^verbatim>\<open>call.end()\<close>
  has been called.
\<close>

record 'a stream =
  written :: "'a list"
  ended :: bool

definition new_stream :: "'a stream" where
  "new_stream = \<lparr>written = [], ended = False\<rparr>"

definition stream_write :: "'a stream \<Rightarrow> 'a \<Rightarrow> 'a stream" where
  "stream_write call x = call\<lparr>written := written call @ [x]\<rparr>"

definition stream_end :: "'a stream \<Rightarrow> 'a stream" where
  "stream_end call = call\<lparr>ended := True\<rparr>"

section \<open>Feature lookup\<close>

text \<open>
  \<^verbatim>\<open>checkFeature\<close>: the loop over \<^verbatim>\<open>feature_list\<close> returns at the first feature
  whose two location fields are strictly equal to those of the point; after the loop
  a feature with the empty name is built around the point.
\<close>

fun checkFeature :: "feature list \<Rightarrow> point \<Rightarrow> feature" where
  "checkFeature [] point = \<lparr>name = '''', location = point\<rparr>"
| "checkFeature (feature # rest) point =
     (if latitude (location feature) = latitude point \<and>
         longitude (location feature) = longitude point
      then feature
      else checkFeature rest point)"

definition getFeature :: "feature list \<Rightarrow> point \<Rightarrow> error + feature" where
  "getFeature feature_list request = Inr (checkFeature feature_list request)"

section \<open>Region listing\<close>

text \<open>
  \<^verbatim>\<open>_.min\<close> and \<^verbatim>\<open>_.max\<close> of lodash walk the array once and keep the current
  extremum; an element that is \<^verbatim>\<open>undefined\<close> is skipped, and the result of an array
  without any number is \<^verbatim>\<open>undefined\<close>. The comparator is \<open><\<close> for the minimum
  and \<open>>\<close> for the maximum.
\<close>

fun baseExtremum :: "(int \<Rightarrow> int \<Rightarrow> bool) \<Rightarrow> int option \<Rightarrow> int option list \<Rightarrow> int option" where
  "baseExtremum comparator computed [] = computed"
| "baseExtremum comparator computed (None # rest) = baseExtremum comparator computed rest"
| "baseExtremum comparator None (Some current # rest) =
     baseExtremum comparator (Some current) rest"
| "baseExtremum comparator (Some c) (Some current # rest) =
     baseExtremum comparator (if comparator current c then Some current else Some c) rest"

definition lodash_min :: "int option list \<Rightarrow> int option" where
  "lodash_min array = baseExtremum (\<lambda>a b. a < b) None array"

definition lodash_max :: "int option list \<Rightarrow> int option" where
  "lodash_max array = baseExtremum (\<lambda>a b. a > b) None array"

text \<open>
  The relational operators \<^verbatim>\<open>>=\<close> and \<^verbatim>\<open><=\<close>: a comparison with
  \<^verbatim>\<open>undefined\<close> is false.
\<close>

fun js_ge :: "int option \<Rightarrow> int option \<Rightarrow> bool" where
  "js_ge (Some a) (Some b) = (a \<ge> b)"
| "js_ge _ _ = False"

fun js_le :: "int option \<Rightarrow> int option \<Rightarrow> bool" where
  "js_le (Some a) (Some b) = (a \<le> b)"
| "js_le _ _ = False"

text \<open>
  The function given to \<^verbatim>\<open>_.each\<close> in \<^verbatim>\<open>listFeatures\<close>: the early
  \<^verbatim>\<open>return\<close> for an empty name only leaves this visit, the iteration goes on.
\<close>

definition listFeatures_visit ::
  "int option \<Rightarrow> int option \<Rightarrow> int option \<Rightarrow> int option \<Rightarrow>
   feature stream \<Rightarrow> feature \<Rightarrow> feature stream" where
  "listFeatures_visit left right top' bottom' call feature =
     (if name feature = '''' then call
      else if js_ge (longitude (location feature)) left \<and>
              js_le (longitude (location feature)) right \<and>
              js_ge (latitude (location feature)) bottom' \<and>
              js_le (latitude (location feature)) top'
      then stream_write call feature
      else call)"

definition listFeatures :: "feature list \<Rightarrow> rectangle \<Rightarrow> feature stream" where
  "listFeatures feature_list request =
     (let left = lodash_min [longitude (lo request), longitude (hi request)];
          right = lodash_max [longitude (lo request), longitude (hi request)];
          top' = lodash_max [latitude (lo request), latitude (hi request)];
          bottom' = lodash_min [latitude (lo request), latitude (hi request)]
      in stream_end
           (foldl (listFeatures_visit left right top' bottom') new_stream feature_list))"

text \<open>
  The region test in the words of the specification, for a rectangle given by the
  four integers of its corners: the name is not empty, the longitude lies between
  the smaller and the larger longitude of the corners, and the latitude between the
  smaller and the larger latitude, all bounds included. A feature without a
  latitude or a longitude is in no region.
\<close>

definition inRegion_spec :: "int \<Rightarrow> int \<Rightarrow> int \<Rightarrow> int \<Rightarrow> feature \<Rightarrow> bool" where
  "inRegion_spec lo_lat lo_lon hi_lat hi_lon f =
     (name f \<noteq> '''' \<and>
      (case (latitude (location f), longitude (location f)) of
         (Some y, Some x) \<Rightarrow>
           min lo_lon hi_lon \<le> x \<and> x \<le> max lo_lon hi_lon \<and>
           min lo_lat hi_lat \<le> y \<and> y \<le> max lo_lat hi_lat
       | _ \<Rightarrow> False))"

section \<open>Distance\<close>

text \<open>
  A JavaScript number is a double. \<open>None\<close> is \<^verbatim>\<open>NaN\<close>, and \<open>Some x\<close> is the
  double whose value is the real number \<open>x\<close>. The operators \<^verbatim>\<open>+\<close>, \<^verbatim>\<open>-\<close>,
  \<^verbatim>\<open>*\<close>, \<^verbatim>\<open>/\<close> and \<^verbatim>\<open>Math.sqrt\<close> give the exact result rounded to a double;
  \<^verbatim>\<open>Math.sin\<close>, \<^verbatim>\<open>Math.cos\<close> and \<^verbatim>\<open>Math.atan2\<close> are the approximations of the
  implementation, and \<^verbatim>\<open>Math.PI\<close> is a double next to \<open>pi\<close>. The rounding and
  these functions are the fields of an arithmetic. Every definition below takes the
  arithmetic as its first argument and assumes nothing about it, so that what holds
  for every arithmetic holds for the doubles. A result too large for a double is
  not modelled.
\<close>

type_synonym jsnum = "real option"

record arith =
  round_double :: "real \<Rightarrow> real"
  Math_sin :: "real \<Rightarrow> real"
  Math_cos :: "real \<Rightarrow> real"
  Math_atan2 :: "real \<Rightarrow> real \<Rightarrow> real"
  Math_PI :: real

definition num_add :: "arith \<Rightarrow> real \<Rightarrow> real \<Rightarrow> real" where
  "num_add ar x y = round_double ar (x + y)"

definition num_sub :: "arith \<Rightarrow> real \<Rightarrow> real \<Rightarrow> real" where
  "num_sub ar x y = round_double ar (x - y)"

definition num_mul :: "arith \<Rightarrow> real \<Rightarrow> real \<Rightarrow> real" where
  "num_mul ar x y = round_double ar (x * y)"

definition num_div :: "arith \<Rightarrow> real \<Rightarrow> real \<Rightarrow> real" where
  "num_div ar x y = round_double ar (x / y)"

text \<open>\<^verbatim>\<open>Math.sqrt\<close> of a negative number is \<^verbatim>\<open>NaN\<close>.\<close>

definition Math_sqrt :: "arith \<Rightarrow> real \<Rightarrow> jsnum" where
  "Math_sqrt ar x = (if x < 0 then None else Some (round_double ar (sqrt x)))"

text \<open>
  The addition of \<^verbatim>\<open>distance += ...\<close>: \<^verbatim>\<open>NaN\<close> on either side gives
  \<^verbatim>\<open>NaN\<close>.
\<close>

fun js_add :: "arith \<Rightarrow> jsnum \<Rightarrow> jsnum \<Rightarrow> jsnum" where
  "js_add ar (Some x) (Some y) = Some (num_add ar x y)"
| "js_add ar _ _ = None"

text \<open>
  Modelled from the spec: \<^verbatim>\<open>COORD_FACTOR\<close> is used by \<^verbatim>\<open>getDistance\<close> and is not
  declared in the source file; the specification gives the scale of a coordinate as
  degrees times 10,000,000.
\<close>

definition COORD_FACTOR :: real where
  "COORD_FACTOR = 10000000"

definition toRadians :: "arith \<Rightarrow> real \<Rightarrow> real" where
  "toRadians ar num = num_div ar (num_mul ar num (Math_PI ar)) 180"

text \<open>
  \<^verbatim>\<open>getDistance\<close>. A field that is \<^verbatim>\<open>undefined\<close> becomes \<^verbatim>\<open>NaN\<close> in the
  division by \<^verbatim>\<open>COORD_FACTOR\<close>, and \<^verbatim>\<open>NaN\<close> goes through every later operation.
  With all four fields present, the result is \<^verbatim>\<open>NaN\<close> exactly when one of the two
  square roots is taken of a negative number: the term \<^verbatim>\<open>a\<close> is a rounded sum of
  rounded products, and nothing keeps it between \<open>0\<close> and \<open>1\<close>.
\<close>

definition getDistance :: "arith \<Rightarrow> point \<Rightarrow> point \<Rightarrow> jsnum" where
  "getDistance ar start endp =
     (case (latitude start, latitude endp, longitude start, longitude endp) of
        (Some la1, Some la2, Some lo1, Some lo2) \<Rightarrow>
          (let R = 6371000;
               lat1 = toRadians ar (num_div ar (real_of_int la1) COORD_FACTOR);
               lat2 = toRadians ar (num_div ar (real_of_int la2) COORD_FACTOR);
               lon1 = toRadians ar (num_div ar (real_of_int lo1) COORD_FACTOR);
               lon2 = toRadians ar (num_div ar (real_of_int lo2) COORD_FACTOR);
               deltalat = num_sub ar lat2 lat1;
               deltalon = num_sub ar lon2 lon1;
               a = num_add ar
                     (num_mul ar (Math_sin ar (num_div ar deltalat 2))
                                 (Math_sin ar (num_div ar deltalat 2)))
                     (num_mul ar
                        (num_mul ar
                           (num_mul ar (Math_cos ar lat1) (Math_cos ar lat2))
                           (Math_sin ar (num_div ar deltalon 2)))
                        (Math_sin ar (num_div ar deltalon 2)))
           in case (Math_sqrt ar a, Math_sqrt ar (num_sub ar 1 a)) of
                (Some y, Some x) \<Rightarrow> Some (num_mul ar R (num_mul ar 2 (Math_atan2 ar y x)))
              | _ \<Rightarrow> None)
      | _ \<Rightarrow> None)"

text \<open>
  The angle of the point \<open>(x, y)\<close> in \<open>(-pi, pi]\<close>, and \<open>0\<close> at the origin: the
  function that \<^verbatim>\<open>Math.atan2(y, x)\<close> approximates.
\<close>

definition atan2 :: "real \<Rightarrow> real \<Rightarrow> real" where
  "atan2 y x =
     (if 0 < x then arctan (y / x)
      else if x < 0 then (if 0 \<le> y then arctan (y / x) + pi else arctan (y / x) - pi)
      else if 0 < y then pi / 2
      else if y < 0 then - (pi / 2)
      else 0)"

text \<open>
  The arithmetic without rounding: every operation is exact and the functions are
  the mathematical ones. The doubles differ from it by one rounding in every
  operation. It serves to evaluate the model at concrete inputs.
\<close>

definition exact_arith :: arith where
  "exact_arith =
     \<lparr>round_double = (\<lambda>x. x), Math_sin = sin, Math_cos = cos,
      Math_atan2 = atan2, Math_PI = pi\<rparr>"

section \<open>Route recording\<close>

text \<open>
  The local variables of one \<^verbatim>\<open>recordRoute\<close> call.
\<close>

record route_vars =
  v_point_count :: int
  v_feature_count :: int
  v_distance :: jsnum
  v_previous :: "point option"

definition recordRoute_init :: route_vars where
  "recordRoute_init =
     \<lparr>v_point_count = 0, v_feature_count = 0, v_distance = Some 0, v_previous = None\<rparr>"

text \<open>The handler of the \<^verbatim>\<open>data\<close> event.\<close>

definition recordRoute_data ::
  "arith \<Rightarrow> feature list \<Rightarrow> route_vars \<Rightarrow> point \<Rightarrow> route_vars" where
  "recordRoute_data ar feature_list vars point =
     \<lparr>v_point_count = v_point_count vars + 1,
      v_feature_count =
        (if name (checkFeature feature_list point) \<noteq> ''''
         then v_feature_count vars + 1 else v_feature_count vars),
      v_distance =
        (case v_previous vars of
           Some previous \<Rightarrow> js_add ar (v_distance vars) (getDistance ar previous point)
         | None \<Rightarrow> v_distance vars),
      v_previous = Some point\<rparr>"

text \<open>
  \<^verbatim>\<open>distance|0\<close> is the conversion \<^verbatim>\<open>ToInt32\<close>: \<^verbatim>\<open>NaN\<close> becomes \<open>0\<close>; a
  number is truncated toward zero, reduced modulo \<open>2^32\<close> and read as a signed
  32-bit integer.
\<close>

definition truncate :: "real \<Rightarrow> int" where
  "truncate x = (if 0 \<le> x then \<lfloor>x\<rfloor> else \<lceil>x\<rceil>)"

definition to_int32 :: "jsnum \<Rightarrow> int" where
  "to_int32 v =
     (case v of
        None \<Rightarrow> 0
      | Some x \<Rightarrow>
          (let m = truncate x mod 4294967296
           in if 2147483648 \<le> m then m - 4294967296 else m))"

text \<open>
  \<^verbatim>\<open>process.hrtime()\<close> reads a clock as seconds and nanoseconds;
  \<^verbatim>\<open>process.hrtime(time)\<close> is the difference of the current reading \<open>now\<close> and an
  earlier one, with a borrow from the seconds when the nanoseconds are negative.
\<close>

type_synonym hrtime = "int \<times> int"

definition hrtime_since :: "hrtime \<Rightarrow> hrtime \<Rightarrow> hrtime" where
  "hrtime_since now time =
     (let sec = fst now - fst time;
          nsec = snd now - snd time
      in if nsec < 0 then (sec - 1, nsec + 1000000000) else (sec, nsec))"

text \<open>
  A reading has its nanoseconds in \<open>[0, 10^9)\<close>; the clock does not run backwards.
\<close>

definition clock_order :: "hrtime \<Rightarrow> hrtime \<Rightarrow> bool" where
  "clock_order t1 t2 \<longleftrightarrow>
     0 \<le> snd t1 \<and> snd t1 < 1000000000 \<and> 0 \<le> snd t2 \<and> snd t2 < 1000000000 \<and>
     (fst t1 < fst t2 \<or> (fst t1 = fst t2 \<and> snd t1 \<le> snd t2))"

text \<open>The handler of the \<^verbatim>\<open>end\<close> event: the only call of the callback.\<close>

definition recordRoute_end :: "hrtime \<Rightarrow> hrtime \<Rightarrow> route_vars \<Rightarrow> error + route_summary" where
  "recordRoute_end start_time now vars =
     Inr \<lparr>point_count = v_point_count vars,
          feature_count = v_feature_count vars,
          distance = to_int32 (v_distance vars),
          elapsed_time = fst (hrtime_since now start_time)\<rparr>"

text \<open>
  One call of \<^verbatim>\<open>recordRoute\<close>: the clock is read at the start, every point of the
  request stream goes through the \<^verbatim>\<open>data\<close> handler in order, and the \<^verbatim>\<open>end\<close>
  handler reads the clock again and answers.
\<close>

definition recordRoute ::
  "arith \<Rightarrow> feature list \<Rightarrow> hrtime \<Rightarrow> hrtime \<Rightarrow> point list \<Rightarrow> error + route_summary" where
  "recordRoute ar feature_list start_time now points =
     recordRoute_end start_time now
       (foldl (recordRoute_data ar feature_list) recordRoute_init points)"

text \<open>
  The segment distances of a stream of points, from each point to the next, and the
  accumulated floating-point sum: the segment distances added from the left,
  starting at \<open>0\<close>, every addition rounded.
\<close>

definition segments :: "arith \<Rightarrow> point list \<Rightarrow> jsnum list" where
  "segments ar points = map (\<lambda>(p, q). getDistance ar p q) (zip points (tl points))"

definition route_length :: "arith \<Rightarrow> point list \<Rightarrow> jsnum" where
  "route_length ar points = foldl (js_add ar) (Some 0) (segments ar points)"

section \<open>Route chat\<close>

text \<open>
  \<^verbatim>\<open>JSON.parse(JSON.stringify(note))\<close> builds a new object with new nested objects,
  field by field; an absent field stays absent.
\<close>

definition deep_copy :: "route_note \<Rightarrow> route_note" where
  "deep_copy note =
     \<lparr>note_location =
        \<lparr>latitude = latitude (note_location note),
         longitude = longitude (note_location note)\<rparr>,
      message = message note\<rparr>"

text \<open>
  The handler of the \<^verbatim>\<open>data\<close> event of \<^verbatim>\<open>routeChat\<close>. The object
  \<^verbatim>\<open>route_notes\<close> is a map from keys to lists of notes. The function \<^verbatim>\<open>pointKey\<close>
  is called by the handler and is not declared in the source file: it is a parameter
  here, and nothing is assumed about it.
\<close>

definition routeChat_data ::
  "(point \<Rightarrow> 'k) \<Rightarrow> ('k \<rightharpoonup> route_note list) \<times> route_note stream \<Rightarrow> route_note \<Rightarrow>
   ('k \<rightharpoonup> route_note list) \<times> route_note stream" where
  "routeChat_data pointKey st note =
     (let route_notes = fst st;
          call = snd st;
          key = pointKey (note_location note);
          st1 = (case route_notes key of
                   Some notes \<Rightarrow> (route_notes, foldl stream_write call notes)
                 | None \<Rightarrow> (route_notes(key \<mapsto> []), call));
          stored = (case fst st1 key of Some notes \<Rightarrow> notes | None \<Rightarrow> [])
      in ((fst st1)(key \<mapsto> stored @ [deep_copy note]), snd st1))"

text \<open>One call of \<^verbatim>\<open>routeChat\<close> that receives the given notes and then the end.\<close>

definition routeChat ::
  "(point \<Rightarrow> 'k) \<Rightarrow> ('k \<rightharpoonup> route_note list) \<Rightarrow> route_note list \<Rightarrow>
   ('k \<rightharpoonup> route_note list) \<times> route_note stream" where
  "routeChat pointKey route_notes notes =
     (let st = foldl (routeChat_data pointKey) (route_notes, new_stream) notes
      in (fst st, stream_end (snd st)))"

text \<open>
  The notes stored under a key: \<^verbatim>\<open>route_notes[key]\<close> when the key is present, and
  no note when it is not.
\<close>

definition stored_at :: "('k \<rightharpoonup> route_note list) \<Rightarrow> 'k \<Rightarrow> route_note list" where
  "stored_at route_notes key = (case route_notes key of Some notes \<Rightarrow> notes | None \<Rightarrow> [])"

text \<open>
  Several calls in flight. A handler runs from its first statement to its last
  without giving up control, so the server handles the \<^verbatim>\<open>data\<close> events of all
  calls one after the other, in the order of their arrival. An event is the call it
  belongs to and the note received; the server state is the shared \<^verbatim>\<open>route_notes\<close>
  and the stream of every call. The run lists, for every event, the call and the
  notes that its handler wrote.
\<close>

definition notes_written :: "'a stream \<Rightarrow> 'a stream \<Rightarrow> 'a list" where
  "notes_written before after = drop (length (written before)) (written after)"

fun routeChat_events ::
  "(point \<Rightarrow> 'k) \<Rightarrow> ('k \<rightharpoonup> route_note list) \<Rightarrow> (nat \<Rightarrow> route_note stream) \<Rightarrow>
   (nat \<times> route_note) list \<Rightarrow> (nat \<times> route_note list) list" where
  "routeChat_events pointKey route_notes calls [] = []"
| "routeChat_events pointKey route_notes calls ((c, note) # events) =
     (let st = routeChat_data pointKey (route_notes, calls c) note
      in (c, notes_written (calls c) (snd st)) #
         routeChat_events pointKey (fst st) (calls(c := snd st)) events)"

section \<open>Properties of the feature lookup\<close>

lemma point_eq_fields:
  "(latitude p = latitude q \<and> longitude p = longitude q) \<longleftrightarrow> p = (q::point)"
  by auto

lemma checkFeature_find:
  "checkFeature fl p =
     (case find (\<lambda>f. location f = p) fl of
        Some f \<Rightarrow> f
      | None \<Rightarrow> \<lparr>name = '''', location = p\<rparr>)"
  by (induction fl) (simp_all add: point_eq_fields)

text \<open>
  Claim C1. Feature lookup scans the loaded collection in order and answers with the
  first feature whose location equals the queried point on both fields
  (\<open>find\<close> gives the first element of the list that satisfies the test); when no
  feature matches, the answer is a feature with the empty name located at the queried
  point. In both cases \<open>getFeature\<close> answers with a value (\<open>Inr\<close>), never with an error.
\<close>

theorem getFeature_first_match_or_unnamed:
  "getFeature fl p =
     Inr (case find (\<lambda>f. location f = p) fl of
            Some f \<Rightarrow> f
          | None \<Rightarrow> \<lparr>name = '''', location = p\<rparr>)"
  by (simp add: getFeature_def checkFeature_find)

section \<open>Properties of the region listing\<close>

lemma foldl_visit_written:
  "written (foldl (listFeatures_visit l r t b) call fl) =
     written call @
     filter (\<lambda>f. name f \<noteq> '''' \<and>
                 js_ge (longitude (location f)) l \<and> js_le (longitude (location f)) r \<and>
                 js_ge (latitude (location f)) b \<and> js_le (latitude (location f)) t) fl"
  by (induction fl arbitrary: call) (auto simp: listFeatures_visit_def stream_write_def)

lemma foldl_visit_ended:
  "ended (foldl (listFeatures_visit l r t b) call fl) = ended call"
  by (induction fl arbitrary: call) (auto simp: listFeatures_visit_def stream_write_def)

lemma lodash_min_pair: "lodash_min [Some a, Some b] = Some (min a b)"
  by (auto simp: lodash_min_def min_def)

lemma lodash_max_pair: "lodash_max [Some a, Some b] = Some (max a b)"
  by (auto simp: lodash_max_def max_def)

lemma lodash_min_swap: "lodash_min [a, b] = lodash_min [b, a]"
  by (cases a; cases b) (auto simp: lodash_min_def)

lemma lodash_max_swap: "lodash_max [a, b] = lodash_max [b, a]"
  by (cases a; cases b) (auto simp: lodash_max_def)

lemma js_box_spec:
  "(name f \<noteq> '''' \<and>
    js_ge (longitude (location f)) (Some (min b d)) \<and>
    js_le (longitude (location f)) (Some (max b d)) \<and>
    js_ge (latitude (location f)) (Some (min a c)) \<and>
    js_le (latitude (location f)) (Some (max a c))) = inRegion_spec a b c d f"
  by (cases "latitude (location f)"; cases "longitude (location f)")
     (auto simp: inRegion_spec_def)

text \<open>
  Claim C6. For a rectangle whose corners are \<open>(a, b)\<close> and \<open>(c, d)\<close> (latitude first),
  \<open>listFeatures\<close> writes exactly the features of the collection that pass the region
  test of the specification: a non-empty name, the longitude between the smaller and
  the larger corner longitude and the latitude between the smaller and the larger
  corner latitude, every bound included. The written features keep the order of the
  collection (\<open>filter\<close>), and the stream is ended after them.
\<close>

theorem listFeatures_writes_region_in_order:
  "listFeatures fl \<lparr>lo = \<lparr>latitude = Some a, longitude = Some b\<rparr>,
                    hi = \<lparr>latitude = Some c, longitude = Some d\<rparr>\<rparr> =
     \<lparr>written = filter (inRegion_spec a b c d) fl, ended = True\<rparr>"
  by (simp add: listFeatures_def Let_def stream_end_def new_stream_def
      foldl_visit_written foldl_visit_ended lodash_min_pair lodash_max_pair js_box_spec)

text \<open>
  Claim C7. Exchanging the two corners of the rectangle does not change what
  \<open>listFeatures\<close> writes: the four bounds are a minimum and a maximum of the two
  corner values, whatever their order.
\<close>

theorem listFeatures_corners_swapped:
  "listFeatures fl \<lparr>lo = p, hi = q\<rparr> = listFeatures fl \<lparr>lo = q, hi = p\<rparr>"
  by (simp add: listFeatures_def
      lodash_min_swap [of "longitude p"] lodash_min_swap [of "latitude p"]
      lodash_max_swap [of "longitude p"] lodash_max_swap [of "latitude p"])

section \<open>Properties of the route chat\<close>

lemma deep_copy_id: "deep_copy n = n"
  by (simp add: deep_copy_def)

lemma foldl_stream_write: "foldl stream_write call xs = call\<lparr>written := written call @ xs\<rparr>"
  by (induction xs arbitrary: call) (simp_all add: stream_write_def)

text \<open>
  Claim C2. For a received note, the handler of \<open>routeChat\<close> writes to the stream of
  the call the notes that were stored under the key of the note's location before
  the handler ran, in their stored order, and nothing else; the stored sequence of
  that key afterwards is the earlier one (empty when the key was new) followed by
  the copy of the received note, which is therefore not part of its own reply.
\<close>

theorem routeChat_data_replays_then_stores:
  "routeChat_data pointKey (route_notes, call) n =
     (let key = pointKey (note_location n);
          history = stored_at route_notes key
      in (route_notes(key \<mapsto> history @ [n]),
          call\<lparr>written := written call @ history\<rparr>))"
  by (simp add: routeChat_data_def Let_def deep_copy_id foldl_stream_write stored_at_def
      split: option.splits)

lemma routeChat_data_fst:
  "fst (routeChat_data pk (rn, call) n) =
     rn(pk (note_location n) \<mapsto> stored_at rn (pk (note_location n)) @ [n])"
  by (simp add: routeChat_data_def Let_def deep_copy_id stored_at_def split: option.splits)

lemma routeChat_data_written:
  "notes_written call (snd (routeChat_data pk (rn, call) n)) =
     stored_at rn (pk (note_location n))"
  by (simp add: routeChat_data_def Let_def notes_written_def foldl_stream_write stored_at_def
      split: option.splits)

lemma routeChat_events_nth:
  "j < length evs \<Longrightarrow>
   routeChat_events pk rn calls evs ! j =
     (fst (evs ! j),
      stored_at rn (pk (note_location (snd (evs ! j)))) @
      map snd (filter (\<lambda>e. pk (note_location (snd e)) = pk (note_location (snd (evs ! j))))
                 (take j evs)))"
proof (induction evs arbitrary: rn calls j)
  case Nil
  then show ?case by simp
next
  case (Cons e evs)
  obtain c n where e: "e = (c, n)" by (cases e)
  show ?case
  proof (cases j)
    case 0
    then show ?thesis
      by (simp add: e Let_def routeChat_data_written)
  next
    case (Suc j')
    with Cons.prems have j': "j' < length evs" by simp
    show ?thesis
      using Cons.IH [OF j']
      by (simp add: e Suc Let_def routeChat_data_fst stored_at_def)
  qed
qed

text \<open>
  Claim C9. The \<^verbatim>\<open>data\<close> events of any number of \<open>routeChat\<close> calls arrive in
  some order \<open>evs\<close>, starting from the empty \<^verbatim>\<open>route_notes\<close>; each handler runs as
  one step. Whatever the order and whatever the calls, when the events \<open>i\<close> and a
  later \<open>j\<close> have the same key, the handler of \<open>j\<close> writes exactly the notes of the
  earlier events with that key, in their order of arrival: the note of \<open>i\<close> is among
  them, so the later caller never sees an empty history.
\<close>

theorem routeChat_events_later_sees_earlier:
  assumes "i < j" and "j < length evs"
    and "pointKey (note_location (snd (evs ! i))) = pointKey (note_location (snd (evs ! j)))"
  shows "snd (routeChat_events pointKey Map.empty calls evs ! j) =
           map snd (filter (\<lambda>e. pointKey (note_location (snd e)) =
                                 pointKey (note_location (snd (evs ! j)))) (take j evs))
         \<and> snd (evs ! i) \<in> set (snd (routeChat_events pointKey Map.empty calls evs ! j))
         \<and> snd (routeChat_events pointKey Map.empty calls evs ! j) \<noteq> []"
proof -
  let ?same = "\<lambda>e. pointKey (note_location (snd e)) = pointKey (note_location (snd (evs ! j)))"
  have eq: "snd (routeChat_events pointKey Map.empty calls evs ! j) =
              map snd (filter ?same (take j evs))"
    using assms(2) by (simp add: routeChat_events_nth stored_at_def)
  have "evs ! i \<in> set (take j evs)"
    using assms(1,2) by (metis in_set_conv_nth length_take min.absorb2 less_imp_le nth_take)
  with assms(3) have "evs ! i \<in> set (filter ?same (take j evs))" by simp
  then have mem: "snd (evs ! i) \<in> set (map snd (filter ?same (take j evs)))"
    by force
  from mem have ne: "map snd (filter ?same (take j evs)) \<noteq> []"
    by (metis empty_iff list.set(1))
  from eq mem ne show ?thesis by simp
qed

theorem routeChat_events_later_sees_earlier_witness:
  "(0::nat) < 1
   \<and> 1 < length [(1::nat, \<lparr>note_location = \<lparr>latitude = Some 5, longitude = Some 5\<rparr>,
                           message = ''N1''\<rparr>),
                  (2, \<lparr>note_location = \<lparr>latitude = Some 5, longitude = Some 5\<rparr>,
                           message = ''N2''\<rparr>)]
   \<and> snd (routeChat_events (\<lambda>p. (latitude p, longitude p)) Map.empty (\<lambda>c. new_stream)
            [(1, \<lparr>note_location = \<lparr>latitude = Some 5, longitude = Some 5\<rparr>,
                   message = ''N1''\<rparr>),
             (2, \<lparr>note_location = \<lparr>latitude = Some 5, longitude = Some 5\<rparr>,
                   message = ''N2''\<rparr>)] ! 1) =
       [\<lparr>note_location = \<lparr>latitude = Some 5, longitude = Some 5\<rparr>, message = ''N1''\<rparr>]"
  using routeChat_events_later_sees_earlier
    [of 0 1 "[(1, \<lparr>note_location = \<lparr>latitude = Some 5, longitude = Some 5\<rparr>,
                     message = ''N1''\<rparr>),
              (2, \<lparr>note_location = \<lparr>latitude = Some 5, longitude = Some 5\<rparr>,
                     message = ''N2''\<rparr>)]"
        "\<lambda>p. (latitude p, longitude p)" "\<lambda>c. new_stream"]
  by simp

section \<open>Properties of the route recording\<close>

lemma foldl_data_counts:
  "v_point_count (foldl (recordRoute_data ar fl) vars ps) = v_point_count vars + int (length ps)"
  "v_feature_count (foldl (recordRoute_data ar fl) vars ps) =
     v_feature_count vars + int (length (filter (\<lambda>p. name (checkFeature fl p) \<noteq> '''') ps))"
  by (induction ps arbitrary: vars) (simp_all add: recordRoute_data_def)

lemma foldl_data_distance_prev:
  "v_previous vars = Some q \<Longrightarrow>
   v_distance (foldl (recordRoute_data ar fl) vars ps) =
     foldl (js_add ar) (v_distance vars)
       (map (\<lambda>(p, q). getDistance ar p q) (zip (q # ps) ps))"
  by (induction ps arbitrary: vars q) (simp_all add: recordRoute_data_def)

lemma foldl_data_distance:
  "v_distance (foldl (recordRoute_data ar fl) recordRoute_init ps) = route_length ar ps"
proof (cases ps)
  case Nil
  then show ?thesis by (simp add: route_length_def segments_def recordRoute_init_def)
next
  case (Cons p ps')
  have "v_previous (recordRoute_data ar fl recordRoute_init p) = Some p"
    by (simp add: recordRoute_data_def)
  from foldl_data_distance_prev [OF this, of ar fl ps'] show ?thesis
    by (simp add: Cons route_length_def segments_def recordRoute_data_def recordRoute_init_def)
qed

lemma recordRoute_summary:
  "recordRoute ar fl t0 t1 ps =
     Inr \<lparr>point_count = int (length ps),
          feature_count = int (length (filter (\<lambda>p. name (checkFeature fl p) \<noteq> '''') ps)),
          distance = to_int32 (route_length ar ps),
          elapsed_time = fst (hrtime_since t1 t0)\<rparr>"
proof -
  have init: "v_point_count recordRoute_init = 0" "v_feature_count recordRoute_init = 0"
    by (simp_all add: recordRoute_init_def)
  show ?thesis
    by (simp add: recordRoute_def recordRoute_end_def foldl_data_distance foldl_data_counts init)
qed

text \<open>
  Claim C10. The summary of every finite stream of points has
  \<open>feature_count \<le> point_count\<close>: the point counter is the number of points, and the
  feature counter is the number of those points whose lookup gives a feature with a
  non-empty name. This holds for every arithmetic.
\<close>

theorem recordRoute_feature_count_le_point_count:
  "\<exists>s. recordRoute ar fl start_time now points = Inr s \<and>
       point_count s = int (length points) \<and>
       feature_count s =
         int (length (filter (\<lambda>p. name (checkFeature fl p) \<noteq> '''') points)) \<and>
       feature_count s \<le> point_count s"
  by (simp add: recordRoute_summary)

lemma hrtime_since_nonneg: "clock_order t0 t1 \<Longrightarrow> 0 \<le> fst (hrtime_since t1 t0)"
  by (auto simp: clock_order_def hrtime_since_def Let_def)

lemma to_int32_zero: "to_int32 (Some 0) = 0"
  by (simp add: to_int32_def truncate_def)

text \<open>
  Claim C8. With a clock that does not run backwards between the start of the call
  and its end, and for every arithmetic: the summary of the empty stream has the two
  counters and the distance equal to zero, the summary of a stream of one point has
  \<open>point_count = 1\<close>, \<open>distance = 0\<close> and \<open>feature_count\<close> equal to \<open>1\<close> when the
  lookup of the point gives a feature with a non-empty name and to \<open>0\<close> otherwise;
  in both, the elapsed time is not negative. Both calls answer with a summary, not
  with an error.
\<close>

theorem recordRoute_zero_or_one_point:
  assumes "clock_order start_time now"
  shows "recordRoute ar fl start_time now [] =
           Inr \<lparr>point_count = 0, feature_count = 0, distance = 0,
                elapsed_time = fst (hrtime_since now start_time)\<rparr>
       \<and> recordRoute ar fl start_time now [p] =
           Inr \<lparr>point_count = 1,
                feature_count = (if name (checkFeature fl p) \<noteq> '''' then 1 else 0),
                distance = 0,
                elapsed_time = fst (hrtime_since now start_time)\<rparr>
       \<and> 0 \<le> fst (hrtime_since now start_time)"
  using hrtime_since_nonneg [OF assms]
  by (simp add: recordRoute_def recordRoute_end_def recordRoute_init_def recordRoute_data_def
      to_int32_zero)

theorem recordRoute_zero_or_one_point_witness:
  "clock_order (10, 999999999) (12, 5)
   \<and> recordRoute exact_arith
        [\<lparr>name = ''A'', location = \<lparr>latitude = Some 0, longitude = Some 0\<rparr>\<rparr>]
        (10, 999999999) (12, 5) [] =
       Inr \<lparr>point_count = 0, feature_count = 0, distance = 0, elapsed_time = 1\<rparr>
   \<and> recordRoute exact_arith
        [\<lparr>name = ''A'', location = \<lparr>latitude = Some 0, longitude = Some 0\<rparr>\<rparr>]
        (10, 999999999) (12, 5) [\<lparr>latitude = Some 0, longitude = Some 0\<rparr>] =
       Inr \<lparr>point_count = 1, feature_count = 1, distance = 0, elapsed_time = 1\<rparr>"
proof -
  have c: "clock_order (10, 999999999) (12, 5)"
    by (simp add: clock_order_def)
  from c recordRoute_zero_or_one_point
    [OF c, of exact_arith
       "[\<lparr>name = ''A'', location = \<lparr>latitude = Some 0, longitude = Some 0\<rparr>\<rparr>]"
       "\<lparr>latitude = Some 0, longitude = Some 0\<rparr>"]
  show ?thesis by (simp add: hrtime_since_def)
qed

lemma foldl_js_add_from_None: "foldl (js_add ar) None ds = None"
  by (induction ds) simp_all

lemma js_add_None_right: "js_add ar a None = None"
  by (cases a) simp_all

lemma foldl_js_add_NaN: "None \<in> set ds \<Longrightarrow> foldl (js_add ar) a ds = None"
proof (induction ds arbitrary: a)
  case Nil
  then show ?case by simp
next
  case (Cons d ds)
  show ?case
  proof (cases d)
    case None
    then show ?thesis by (simp add: js_add_None_right foldl_js_add_from_None)
  next
    case (Some y)
    with Cons.prems have "None \<in> set ds" by simp
    then show ?thesis by (simp add: Cons.IH)
  qed
qed



lemma to_int32_NaN: "to_int32 None = 0"
  by (simp add: to_int32_def)




lemma segments_cons2:
  "segments ar (p # q # ps) = getDistance ar p q # segments ar (q # ps)"
  by (simp add: segments_def)






lemma getDistance_malformed:
  "\<not> wf_point p \<or> \<not> wf_point q \<Longrightarrow> getDistance ar p q = None"
  by (auto simp: getDistance_def wf_point_def split: option.splits)

lemma segments_malformed:
  "p \<in> set ps \<Longrightarrow> \<not> wf_point p \<Longrightarrow> 2 \<le> length ps \<Longrightarrow> None \<in> set (segments ar ps)"
proof (induction ps)
  case Nil
  then show ?case by simp
next
  case (Cons x ps)
  then obtain y rest where ps: "ps = y # rest" by (cases ps) auto
  show ?case
  proof (cases "wf_point x \<and> wf_point y")
    case False
    then have "getDistance ar x y = None" by (intro getDistance_malformed) blast
    then show ?thesis by (simp add: ps segments_cons2)
  next
    case True
    with Cons.prems(1,2) ps have "p \<in> set rest" by auto
    then have "rest \<noteq> []" by auto
    with True Cons.prems ps have "None \<in> set (segments ar ps)"
      by (intro Cons.IH) (auto simp: Suc_le_eq)
    then show ?thesis by (simp add: ps segments_cons2)
  qed
qed

lemma route_length_malformed:
  "p \<in> set ps \<Longrightarrow> \<not> wf_point p \<Longrightarrow> 2 \<le> length ps \<Longrightarrow> route_length ar ps = None"
  unfolding route_length_def by (rule foldl_js_add_NaN) (rule segments_malformed)

text \<open>
  Claim C4 fails as stated: a stream whose second point has no latitude is not
  rejected. The call answers with a summary that counts both points and reports the
  distance \<open>0\<close>.
\<close>

theorem recordRoute_malformed_point_counterexample:
  "recordRoute exact_arith [] (0, 0) (5, 0)
     [\<lparr>latitude = Some 0, longitude = Some 0\<rparr>,
      \<lparr>latitude = None, longitude = Some 0\<rparr>] =
   Inr \<lparr>point_count = 2, feature_count = 0, distance = 0, elapsed_time = 5\<rparr>"
  by (simp add: recordRoute_def recordRoute_end_def recordRoute_init_def recordRoute_data_def
      getDistance_def to_int32_def hrtime_since_def)

text \<open>
  Claim C4, amended. \<open>recordRoute\<close> does not validate its points and never rejects a
  call: for every stream and every arithmetic it answers with a summary that counts
  every point of the stream, well formed or not; when the stream has at least two
  points and one of them lacks its latitude or its longitude, the accumulated
  distance is \<^verbatim>\<open>NaN\<close> and the summary reports the distance \<open>0\<close>.
\<close>

theorem recordRoute_never_rejects:
  "\<exists>s. recordRoute ar fl start_time now points = Inr s \<and>
       point_count s = int (length points) \<and>
       ((\<exists>p \<in> set points. \<not> wf_point p) \<and> 2 \<le> length points \<longrightarrow> distance s = 0)"
  using route_length_malformed [of _ points ar]
  by (auto simp: recordRoute_summary to_int32_NaN)

theorem recordRoute_never_rejects_witness:
  "(\<exists>p \<in> set [\<lparr>latitude = Some 7, longitude = Some 0\<rparr>,
               \<lparr>latitude = Some 8, longitude = None\<rparr>,
               \<lparr>latitude = Some 9, longitude = Some 0\<rparr>]. \<not> wf_point p)
   \<and> 2 \<le> length [\<lparr>latitude = Some 7, longitude = Some 0\<rparr>,
                   \<lparr>latitude = Some 8, longitude = None\<rparr>,
                   \<lparr>latitude = Some 9, longitude = Some 0\<rparr>]
   \<and> (\<exists>s. recordRoute exact_arith [] (0, 0) (5, 0)
             [\<lparr>latitude = Some 7, longitude = Some 0\<rparr>,
              \<lparr>latitude = Some 8, longitude = None\<rparr>,
              \<lparr>latitude = Some 9, longitude = Some 0\<rparr>] = Inr s \<and>
           point_count s = 3 \<and> distance s = 0)"
  using recordRoute_never_rejects
    [of exact_arith "[]" "(0, 0)" "(5, 0)"
        "[\<lparr>latitude = Some 7, longitude = Some 0\<rparr>,
          \<lparr>latitude = Some 8, longitude = None\<rparr>,
          \<lparr>latitude = Some 9, longitude = Some 0\<rparr>]"]
  by (auto simp: wf_point_def)

end
